theory Spec2Isabelle
  imports Complex_Main
begin

section \<open>Values\<close>

text \<open>
  The values that travel through the plugin protocol are JSON values: what
  \<^verbatim>\<open>json.loads\<close> returns and what \<^verbatim>\<open>json.dumps\<close> accepts. A Python
  \<^verbatim>\<open>dict\<close> is an association list in insertion order; \<^verbatim>\<open>None\<close> is \<open>JNull\<close>.
  Numbers are the integers; non-integral numbers are not represented.
\<close>

datatype json =
    JNull
  | JBool bool
  | JInt int
  | JStr string
  | JArr "json list"
  | JObj "(string \<times> json) list"

text \<open>The exceptions that can leave a request handler method.\<close>

datatype error =
    JSONDecodeError
  | AttributeError
  | TypeError
  | KeyError string
  | Uncaught_BaseException

text \<open>\<^verbatim>\<open>d.get(key, default)\<close> on a dict.\<close>

definition dict_get :: "(string \<times> 'v) list \<Rightarrow> string \<Rightarrow> 'v \<Rightarrow> 'v" where
  "dict_get d key dflt = (case map_of d key of None \<Rightarrow> dflt | Some v \<Rightarrow> v)"

text \<open>\<^verbatim>\<open>d[key]\<close> on a dict: a missing key raises \<^verbatim>\<open>KeyError\<close>.\<close>

definition dict_item :: "(string \<times> 'v) list \<Rightarrow> string \<Rightarrow> error + 'v" where
  "dict_item d key = (case map_of d key of None \<Rightarrow> Inl (KeyError key) | Some v \<Rightarrow> Inr v)"

text \<open>
  \<^verbatim>\<open>d[key] = value\<close> on a dict: an existing key keeps its position and takes the
  new value, a new key goes to the end.
\<close>

fun dict_set :: "(string \<times> 'v) list \<Rightarrow> string \<Rightarrow> 'v \<Rightarrow> (string \<times> 'v) list" where
  "dict_set [] key v = [(key, v)]"
| "dict_set ((k, w) # d) key v =
     (if k = key then (key, v) # d else (k, w) # dict_set d key v)"

text \<open>\<^verbatim>\<open>d.keys()\<close>, in iteration order.\<close>

definition dict_keys :: "(string \<times> 'v) list \<Rightarrow> string list" where
  "dict_keys d = map fst d"

text \<open>Python's truth value of a JSON value, as \<^verbatim>\<open>x or y\<close> tests it.\<close>

fun truthy :: "json \<Rightarrow> bool" where
  "truthy JNull = False"
| "truthy (JBool b) = b"
| "truthy (JInt i) = (i \<noteq> 0)"
| "truthy (JStr s) = (s \<noteq> [])"
| "truthy (JArr xs) = (xs \<noteq> [])"
| "truthy (JObj d) = (d \<noteq> [])"

text \<open>\<^verbatim>\<open>str(n)\<close> for an integer: its decimal digits, with a sign when negative.\<close>

fun str_nat :: "nat \<Rightarrow> string" where
  "str_nat n =
     (if n < 10 then [''0123456789'' ! n]
      else str_nat (n div 10) @ [''0123456789'' ! (n mod 10)])"

definition str_int :: "int \<Rightarrow> string" where
  "str_int i = (if i < 0 then CHR ''-'' # str_nat (nat (- i)) else str_nat (nat i))"

text \<open>
  \<^verbatim>\<open>int(x)\<close> for a float \<open>x\<close>: truncation towards zero. Clock readings
  (\<^verbatim>\<open>time.time()\<close>) are real numbers.
\<close>

definition py_int :: "real \<Rightarrow> int" where
  "py_int x = (if 0 \<le> x then \<lfloor>x\<rfloor> else \<lceil>x\<rceil>)"

section \<open>PluginContext, LogEntry, Logger\<close>

text \<open>
  The dataclass \<^verbatim>\<open>PluginContext\<close>. The fields are annotated \<^verbatim>\<open>str\<close> and
  \<^verbatim>\<open>Dict\<close>, but nothing checks what a request puts there, so each holds a JSON value.
\<close>

record PluginContext =
  execution_id :: json
  flow_id :: json
  step_id :: json
  variables :: json
  step_outputs :: json

text \<open>
  An instant (\<^verbatim>\<open>datetime\<close>), represented by the text that \<^verbatim>\<open>isoformat()\<close>
  returns for it.
\<close>

datatype datetime = Datetime (isoformat: string)

record LogEntry =
  level :: string
  message :: string
  timestamp :: datetime

definition to_dict :: "LogEntry \<Rightarrow> json" where
  "to_dict e =
     JObj [(''level'', JStr (level e)),
           (''message'', JStr (message e)),
           (''timestamp'', JStr (isoformat (timestamp e)))]"

record Logger =
  logs :: "LogEntry list"

definition Logger_init :: Logger where
  "Logger_init = \<lparr>logs = []\<rparr>"

text \<open>
  The four methods of \<^verbatim>\<open>Logger\<close>. The entry's timestamp is \<^verbatim>\<open>datetime.now()\<close>
  at the call; that reading of the clock is the argument \<open>now\<close>.
\<close>

definition Logger_debug :: "Logger \<Rightarrow> string \<Rightarrow> datetime \<Rightarrow> Logger" where
  "Logger_debug lg msg now =
     lg\<lparr>logs := logs lg @ [\<lparr>level = ''debug'', message = msg, timestamp = now\<rparr>]\<rparr>"

definition Logger_info :: "Logger \<Rightarrow> string \<Rightarrow> datetime \<Rightarrow> Logger" where
  "Logger_info lg msg now =
     lg\<lparr>logs := logs lg @ [\<lparr>level = ''info'', message = msg, timestamp = now\<rparr>]\<rparr>"

definition Logger_warn :: "Logger \<Rightarrow> string \<Rightarrow> datetime \<Rightarrow> Logger" where
  "Logger_warn lg msg now =
     lg\<lparr>logs := logs lg @ [\<lparr>level = ''warn'', message = msg, timestamp = now\<rparr>]\<rparr>"

definition Logger_error :: "Logger \<Rightarrow> string \<Rightarrow> datetime \<Rightarrow> Logger" where
  "Logger_error lg msg now =
     lg\<lparr>logs := logs lg @ [\<lparr>level = ''error'', message = msg, timestamp = now\<rparr>]\<rparr>"

section \<open>Action handlers\<close>

text \<open>
  An exception object derived from \<^verbatim>\<open>Exception\<close>, as the dispatch code reads it:
  its attribute \<^verbatim>\<open>code\<close> when it has one, and \<^verbatim>\<open>str(e)\<close>.
\<close>

record exc =
  code_attr :: "json option"
  str_of :: string

text \<open>
  How one call of a handler ends: it returns a value (\<open>JNull\<close> for \<^verbatim>\<open>None\<close>), it
  raises an \<^verbatim>\<open>Exception\<close>, or it raises something outside the \<^verbatim>\<open>Exception\<close>
  hierarchy (\<^verbatim>\<open>SystemExit\<close>, \<^verbatim>\<open>KeyboardInterrupt\<close>), which
  \<^verbatim>\<open>except Exception\<close> does not catch.
\<close>

datatype outcome =
    Returns json
  | Raises exc
  | Raises_BaseException

text \<open>
  A handler is called as \<^verbatim>\<open>handler(config, context, logger)\<close>. It may change the
  logger it is given; the logger it leaves behind is part of what the call yields.
\<close>

type_synonym handler = "json \<Rightarrow> PluginContext \<Rightarrow> Logger \<Rightarrow> outcome \<times> Logger"

section \<open>TestMeshPlugin\<close>

record TestMeshPlugin =
  manifest :: "(string \<times> json) list"
  handlers :: "(string \<times> handler) list"
  port :: int
  start_time :: real

text \<open>
  The constructor. \<open>plugin_port\<close> is \<^verbatim>\<open>int(os.environ.get("PLUGIN_PORT", "0"))\<close>
  and \<open>now\<close> is \<^verbatim>\<open>time.time()\<close>.
\<close>

definition TestMeshPlugin_init :: "(string \<times> json) list \<Rightarrow> int \<Rightarrow> real \<Rightarrow> TestMeshPlugin" where
  "TestMeshPlugin_init m plugin_port now =
     \<lparr>manifest = m, handlers = [], port = plugin_port, start_time = now\<rparr>"

text \<open>\<^verbatim>\<open>plugin.action(action_id)(func)\<close>: the decorator stores the handler.\<close>

definition action :: "TestMeshPlugin \<Rightarrow> string \<Rightarrow> handler \<Rightarrow> TestMeshPlugin" where
  "action plugin action_id func =
     plugin\<lparr>handlers := dict_set (handlers plugin) action_id func\<rparr>"

text \<open>A plugin's set-up: the decorator applied to each handler in turn.\<close>

definition register_all :: "TestMeshPlugin \<Rightarrow> (string \<times> handler) list \<Rightarrow> TestMeshPlugin" where
  "register_all plugin regs = foldl (\<lambda>p (action_id, func). action p action_id func) plugin regs"

section \<open>PluginHandler\<close>

text \<open>
  The body of a request, as \<^verbatim>\<open>json.loads(self.rfile.read(content_length).decode())\<close>
  sees it: \<open>Not_JSON\<close> when the text read is not JSON and \<^verbatim>\<open>json.loads\<close> raises
  \<^verbatim>\<open>JSONDecodeError\<close>, \<open>JSON v\<close> when it returns the value \<open>v\<close>. (A
  \<^verbatim>\<open>Content-Length\<close> header that is not a number and bytes that are not UTF-8 raise
  before that; such requests are not represented.)
\<close>

datatype body = Not_JSON | JSON json

record request =
  command :: string
  path :: string
  body :: body

text \<open>
  What a request handler method did: the status, the content type and the data given
  to \<^verbatim>\<open>send_json\<close>, and whether the timer that calls \<^verbatim>\<open>os._exit(0)\<close> was started.
\<close>

record reply =
  status :: nat
  content_type :: string
  data :: json
  exit_timer :: bool

definition send_json :: "json \<Rightarrow> nat \<Rightarrow> reply" where
  "send_json d st =
     \<lparr>status = st, content_type = ''application/json'', data = d, exit_timer = False\<rparr>"

definition do_GET :: "TestMeshPlugin \<Rightarrow> real \<Rightarrow> request \<Rightarrow> error + reply" where
  "do_GET plugin now req =
     (if path req = ''/health'' then
        Inr (send_json (JObj
          [(''status'', JStr ''healthy''),
           (''version'', dict_get (manifest plugin) ''version'' (JStr ''1.0.0'')),
           (''uptime_seconds'', JInt (py_int (now - start_time plugin)))]) 200)
      else if path req = ''/info'' then
        (case dict_item (manifest plugin) ''id'' of
           Inl e \<Rightarrow> Inl e
         | Inr plugin_id \<Rightarrow>
        (case dict_item (manifest plugin) ''name'' of
           Inl e \<Rightarrow> Inl e
         | Inr plugin_name \<Rightarrow>
             Inr (send_json (JObj
               [(''id'', plugin_id),
                (''name'', plugin_name),
                (''version'', dict_get (manifest plugin) ''version'' (JStr ''1.0.0'')),
                (''description'', dict_get (manifest plugin) ''description'' (JStr '''')),
                (''actions'', JArr (map (\<lambda>aid.
                   JObj [(''id'', JStr aid), (''name'', JStr aid),
                         (''description'', JStr (''Action: '' @ aid))])
                   (dict_keys (handlers plugin))))]) 200)))
      else Inr (send_json (JObj [(''error'', JStr ''Not found'')]) 404))"

text \<open>
  \<^verbatim>\<open>plugin.handlers.get(action)\<close>. A list or a dict is unhashable and makes the
  lookup raise \<^verbatim>\<open>TypeError\<close>; the keys are strings, so no other value than a string
  finds a handler.
\<close>

fun handlers_get :: "(string \<times> handler) list \<Rightarrow> json \<Rightarrow> error + handler option" where
  "handlers_get hs (JStr a) = Inr (map_of hs a)"
| "handlers_get hs (JArr xs) = Inl TypeError"
| "handlers_get hs (JObj d) = Inl TypeError"
| "handlers_get hs v = Inr None"

text \<open>
  The text of \<^verbatim>\<open>{action}\<close> in the f-string, for the values that reach it (the
  hashable ones).
\<close>

fun format_action :: "json \<Rightarrow> string" where
  "format_action JNull = ''None''"
| "format_action (JBool b) = (if b then ''True'' else ''False'')"
| "format_action (JInt i) = str_int i"
| "format_action (JStr s) = s"
| "format_action v = []"

text \<open>\<^verbatim>\<open>PluginContext(...)\<close> built from the fields of \<^verbatim>\<open>ctx_data\<close>.\<close>

definition make_context :: "(string \<times> json) list \<Rightarrow> PluginContext" where
  "make_context ctx_data =
     \<lparr>execution_id = dict_get ctx_data ''execution_id'' (JStr ''''),
      flow_id = dict_get ctx_data ''flow_id'' (JStr ''''),
      step_id = dict_get ctx_data ''step_id'' (JStr ''''),
      variables = dict_get ctx_data ''variables'' (JObj []),
      step_outputs = dict_get ctx_data ''step_outputs'' (JObj [])\<rparr>"

text \<open>
  The \<^verbatim>\<open>try\<close> statement of \<^verbatim>\<open>do_POST\<close>, given what the handler's call yielded.
  \<open>t_start\<close> and \<open>t_end\<close> are the readings of \<^verbatim>\<open>time.time()\<close> before the call and
  when the response is built.
\<close>

fun respond :: "real \<Rightarrow> real \<Rightarrow> outcome \<times> Logger \<Rightarrow> error + reply" where
  "respond t_start t_end (Returns result, logger) =
     Inr (send_json (JObj
       [(''success'', JBool True),
        (''output'', if truthy result then result else JObj []),
        (''logs'', JArr (map to_dict (logs logger))),
        (''metrics'', JObj [(''duration_ms'', JInt (py_int ((t_end - t_start) * 1000)))])]) 200)"
| "respond t_start t_end (Raises e, logger) =
     Inr (send_json (JObj
       [(''success'', JBool False),
        (''error'', JObj
           [(''code'', case code_attr e of None \<Rightarrow> JStr ''EXECUTION_ERROR'' | Some c \<Rightarrow> c),
            (''message'', JStr (str_of e))]),
        (''logs'', JArr (map to_dict (logs logger))),
        (''metrics'', JObj [(''duration_ms'', JInt (py_int ((t_end - t_start) * 1000)))])]) 200)"
| "respond t_start t_end (Raises_BaseException, logger) = Inl Uncaught_BaseException"

text \<open>
  The \<^verbatim>\<open>/execute\<close> branch of \<^verbatim>\<open>do_POST\<close>, from the decoded request on.
  \<^verbatim>\<open>request.get\<close> and \<^verbatim>\<open>ctx_data.get\<close> raise \<^verbatim>\<open>AttributeError\<close> when the
  value is not a dict. A handler is a function, which Python takes as true, so
  \<^verbatim>\<open>not handler\<close> holds exactly when the lookup found nothing.
\<close>

definition execute :: "TestMeshPlugin \<Rightarrow> real \<Rightarrow> real \<Rightarrow> json \<Rightarrow> error + reply" where
  "execute plugin t_start t_end request =
     (case request of
        JObj members \<Rightarrow>
          (let action' = dict_get members ''action'' JNull;
               config = dict_get members ''config'' (JObj []);
               ctx_data = dict_get members ''context'' (JObj [])
           in case ctx_data of
                JObj ctx_members \<Rightarrow>
                  (let context = make_context ctx_members
                   in case handlers_get (handlers plugin) action' of
                        Inl e \<Rightarrow> Inl e
                      | Inr None \<Rightarrow>
                          Inr (send_json (JObj
                            [(''success'', JBool False),
                             (''error'', JObj
                                [(''code'', JStr ''UNKNOWN_ACTION''),
                                 (''message'', JStr (''Unknown action: '' @ format_action action'))])])
                            200)
                      | Inr (Some handler) \<Rightarrow>
                          respond t_start t_end (handler config context Logger_init))
              | _ \<Rightarrow> Inl AttributeError)
      | _ \<Rightarrow> Inl AttributeError)"

definition do_POST :: "TestMeshPlugin \<Rightarrow> real \<Rightarrow> real \<Rightarrow> request \<Rightarrow> error + reply" where
  "do_POST plugin t_start t_end req =
     (if path req = ''/execute'' then
        (case body req of
           Not_JSON \<Rightarrow> Inl JSONDecodeError
         | JSON request \<Rightarrow> execute plugin t_start t_end request)
      else if path req = ''/shutdown'' then
        Inr ((send_json (JObj [(''status'', JStr ''shutting_down'')]) 200)\<lparr>exit_timer := True\<rparr>)
      else Inr (send_json (JObj [(''error'', JStr ''Not found'')]) 404))"

text \<open>
  Serving one request. \<^verbatim>\<open>PluginHandler\<close> inherits the request loop of
  \<^verbatim>\<open>BaseHTTPRequestHandler\<close>, which calls the method named \<^verbatim>\<open>do_\<close> followed by
  the request's method when the class has one, and otherwise answers itself with
  status 501. \<^verbatim>\<open>PluginHandler\<close> has \<^verbatim>\<open>do_GET\<close> and \<^verbatim>\<open>do_POST\<close>.
\<close>

datatype served = Handled "error + reply" | Not_Implemented_501

definition handle_one_request :: "TestMeshPlugin \<Rightarrow> real \<Rightarrow> real \<Rightarrow> request \<Rightarrow> served" where
  "handle_one_request plugin t_start t_end req =
     (if command req = ''GET'' then Handled (do_GET plugin t_start req)
      else if command req = ''POST'' then Handled (do_POST plugin t_start t_end req)
      else Not_Implemented_501)"

section \<open>Reading a reply; logging through the Logger\<close>

text \<open>The member \<open>key\<close> of the JSON object a reply carries.\<close>

definition member :: "reply \<Rightarrow> string \<Rightarrow> json option" where
  "member r key = (case data r of JObj d \<Rightarrow> map_of d key | _ \<Rightarrow> None)"

text \<open>
  A handler that logs through the logger calls its four methods. One such call is the
  method, the message and the instant of the call; \<open>level_name\<close> is the level that
  the method stands for.
\<close>

datatype log_method = Debug | Info | Warn | Error

fun level_name :: "log_method \<Rightarrow> string" where
  "level_name Debug = ''debug''"
| "level_name Info = ''info''"
| "level_name Warn = ''warn''"
| "level_name Error = ''error''"

fun log_call :: "Logger \<Rightarrow> log_method \<times> string \<times> datetime \<Rightarrow> Logger" where
  "log_call lg (Debug, msg, now) = Logger_debug lg msg now"
| "log_call lg (Info, msg, now) = Logger_info lg msg now"
| "log_call lg (Warn, msg, now) = Logger_warn lg msg now"
| "log_call lg (Error, msg, now) = Logger_error lg msg now"

section \<open>A small plugin\<close>

text \<open>
  Three handlers, a plugin that registers them (one of them twice), and the request
  \<^verbatim>\<open>POST /execute\<close> with a given decoded body.
\<close>

definition greet :: handler where
  "greet config context logger =
     (Returns (JObj [(''greeting'', JStr ''hello'')]),
      Logger_info (Logger_debug logger ''start'' (Datetime ''2024-01-01T00:00:00''))
        ''done'' (Datetime ''2024-01-01T00:00:01''))"

definition quiet :: handler where
  "quiet config context logger = (Returns JNull, logger)"

definition failing :: handler where
  "failing config context logger =
     (Raises \<lparr>code_attr = Some (JStr ''BAD_INPUT''), str_of = ''missing field''\<rparr>,
      Logger_warn logger ''about to fail'' (Datetime ''2024-01-01T00:00:02''))"

definition demo_manifest :: "(string \<times> json) list" where
  "demo_manifest = [(''id'', JStr ''demo''), (''name'', JStr ''Demo plugin'')]"

definition demo_plugin :: TestMeshPlugin where
  "demo_plugin =
     register_all (TestMeshPlugin_init demo_manifest 0 100)
       [(''greet'', greet), (''fail'', failing), (''quiet'', quiet), (''greet'', greet)]"

definition post_execute :: "json \<Rightarrow> request" where
  "post_execute v = \<lparr>command = ''POST'', path = ''/execute'', body = JSON v\<rparr>"

lemmas demo_defs = demo_plugin_def demo_manifest_def register_all_def TestMeshPlugin_init_def
  action_def post_execute_def greet_def quiet_def failing_def

section \<open>Facts about the registry, the logger and truncation\<close>

lemma dict_keys_set:
  "dict_keys (dict_set d k v) =
     (if k \<in> set (dict_keys d) then dict_keys d else dict_keys d @ [k])"
  by (induction d k v rule: dict_set.induct) (auto simp: dict_keys_def)

lemma handlers_action: "handlers (action p a f) = dict_set (handlers p) a f"
  by (simp add: action_def)

lemma register_all_snoc:
  "register_all p (regs @ [(a, f)]) = action (register_all p regs) a f"
  by (simp add: register_all_def)

lemma manifest_register_all: "manifest (register_all p regs) = manifest p"
  by (induction regs arbitrary: p) (simp_all add: register_all_def action_def split_def)

lemma keys_register_all:
  "distinct (dict_keys (handlers p)) \<Longrightarrow>
   distinct (dict_keys (handlers (register_all p regs))) \<and>
   set (dict_keys (handlers (register_all p regs))) =
     set (dict_keys (handlers p)) \<union> fst ` set regs"
proof (induction regs rule: rev_induct)
  case Nil
  then show ?case by (simp add: register_all_def)
next
  case (snoc x regs)
  obtain a f where x: "x = (a, f)" by (cases x)
  from snoc show ?case
    by (auto simp: x register_all_snoc handlers_action dict_keys_set)
qed

lemma py_int_mono:
  assumes "x \<le> y"
  shows "py_int x \<le> py_int y"
proof (cases "0 \<le> x")
  case True
  with assms have "0 \<le> y" by simp
  with True assms show ?thesis by (simp add: py_int_def floor_mono)
next
  case neg: False
  show ?thesis
  proof (cases "0 \<le> y")
    case True
    have "\<lceil>x\<rceil> \<le> 0" using neg by (simp add: ceiling_le_zero)
    moreover have "0 \<le> \<lfloor>y\<rfloor>" using True by simp
    ultimately have "\<lceil>x\<rceil> \<le> \<lfloor>y\<rfloor>" by (rule order_trans)
    then show ?thesis using neg True by (simp add: py_int_def)
  next
    case False
    with neg assms show ?thesis by (simp add: py_int_def ceiling_mono)
  qed
qed

lemma logs_calls:
  "logs (foldl log_call lg cs) =
     logs lg @ map (\<lambda>(m, msg, t). \<lparr>level = level_name m, message = msg, timestamp = t\<rparr>) cs"
proof (induction cs arbitrary: lg)
  case Nil
  show ?case by simp
next
  case (Cons c cs)
  obtain m msg t where c: "c = (m, msg, t)" by (cases c)
  show ?case
    by (cases m)
       (simp_all add: c Cons Logger_debug_def Logger_info_def Logger_warn_def Logger_error_def)
qed

text \<open>
  Outside the request shape \<^verbatim>\<open>{"action": ..., "config": ..., "context": {...}}\<close>
  the \<^verbatim>\<open>/execute\<close> branch raises before it reaches the registry.
\<close>

lemma execute_not_an_object:
  "\<forall>members. request \<noteq> JObj members \<Longrightarrow>
   do_POST plugin t_start t_end (post_execute request) = Inl AttributeError"
  by (cases request) (simp_all add: do_POST_def execute_def post_execute_def)

lemma execute_context_not_an_object:
  "\<forall>ctx. dict_get members ''context'' (JObj []) \<noteq> JObj ctx \<Longrightarrow>
   do_POST plugin t_start t_end (post_execute (JObj members)) = Inl AttributeError"
  by (cases "dict_get members ''context'' (JObj [])")
     (simp_all add: do_POST_def execute_def post_execute_def)

lemma execute_unhashable_action:
  "dict_get members ''context'' (JObj []) = JObj ctx \<Longrightarrow>
   dict_get members ''action'' JNull = JArr xs \<or> dict_get members ''action'' JNull = JObj d \<Longrightarrow>
   do_POST plugin t_start t_end (post_execute (JObj members)) = Inl TypeError"
  by (auto simp: do_POST_def execute_def post_execute_def)

lemma execute_uncaught:
  "dict_get members ''context'' (JObj []) = JObj ctx \<Longrightarrow>
   dict_get members ''action'' JNull = JStr A \<Longrightarrow>
   map_of (handlers plugin) A = Some h \<Longrightarrow>
   h (dict_get members ''config'' (JObj [])) (make_context ctx) Logger_init
     = (Raises_BaseException, lg) \<Longrightarrow>
   do_POST plugin t_start t_end (post_execute (JObj members)) = Inl Uncaught_BaseException"
  by (simp add: do_POST_def execute_def post_execute_def)

section \<open>Executing an action\<close>

text \<open>
  C1. A \<^verbatim>\<open>POST /execute\<close> request names a registered action \<open>A\<close> (its body is a JSON
  object whose \<^verbatim>\<open>context\<close>, when present, is an object). If the handler of \<open>A\<close>
  returns a mapping \<open>M\<close>, the reply has \<^verbatim>\<open>success: true\<close> and \<^verbatim>\<open>output\<close> equal to
  \<open>M\<close>; if it returns \<^verbatim>\<open>None\<close>, \<^verbatim>\<open>output\<close> is the empty mapping. The reply also
  carries the logs and the duration.
\<close>

theorem execute_success:
  assumes "path req = ''/execute''"
    and "body req = JSON (JObj members)"
    and "dict_get members ''action'' JNull = JStr A"
    and "dict_get members ''context'' (JObj []) = JObj ctx"
    and "map_of (handlers plugin) A = Some h"
    and "h (dict_get members ''config'' (JObj [])) (make_context ctx) Logger_init
           = (Returns result, lg)"
    and "result = JNull \<or> result = JObj M"
  shows "do_POST plugin t_start t_end req =
     Inr (send_json (JObj
       [(''success'', JBool True),
        (''output'', if result = JNull then JObj [] else JObj M),
        (''logs'', JArr (map to_dict (logs lg))),
        (''metrics'', JObj [(''duration_ms'', JInt (py_int ((t_end - t_start) * 1000)))])]) 200)"
  using assms by (auto simp: do_POST_def execute_def)

theorem execute_success_witness:
  "do_POST demo_plugin 0 (1/4) (post_execute (JObj [(''action'', JStr ''greet'')])) =
     Inr (send_json (JObj
       [(''success'', JBool True),
        (''output'', JObj [(''greeting'', JStr ''hello'')]),
        (''logs'', JArr
           [JObj [(''level'', JStr ''debug''), (''message'', JStr ''start''),
                  (''timestamp'', JStr ''2024-01-01T00:00:00'')],
            JObj [(''level'', JStr ''info''), (''message'', JStr ''done''),
                  (''timestamp'', JStr ''2024-01-01T00:00:01'')]]),
        (''metrics'', JObj [(''duration_ms'', JInt 250)])]) 200)"
  using execute_success [of "post_execute (JObj [(''action'', JStr ''greet'')])"
      "[(''action'', JStr ''greet'')]" "''greet''" "[]" demo_plugin greet
      "JObj [(''greeting'', JStr ''hello'')]"
      "Logger_info (Logger_debug Logger_init ''start'' (Datetime ''2024-01-01T00:00:00''))
        ''done'' (Datetime ''2024-01-01T00:00:01'')" "[(''greeting'', JStr ''hello'')]" 0 "1/4"]
  by (simp add: demo_defs dict_get_def to_dict_def Logger_init_def Logger_info_def
      Logger_debug_def py_int_def)

text \<open>
  C2. The claim: a \<^verbatim>\<open>POST /execute\<close> request with a malformed body (not JSON, or JSON
  without \<^verbatim>\<open>action\<close>) is treated as a protocol-level error and never crashes the
  worker that handles it. On a body that is not JSON, \<^verbatim>\<open>json.loads\<close> raises and
  nothing catches it: \<^verbatim>\<open>do_POST\<close> ends with the exception.
\<close>

theorem malformed_body_counterexample:
  "do_POST demo_plugin 0 0 \<lparr>command = ''POST'', path = ''/execute'', body = Not_JSON\<rparr>
     = Inl JSONDecodeError"
  by (simp add: do_POST_def)

text \<open>
  C2, as the code has it. A body that is not JSON makes \<^verbatim>\<open>do_POST\<close> end with the
  decoding error, and no reply is written. A JSON object without \<^verbatim>\<open>action\<close> (whose
  \<^verbatim>\<open>context\<close>, when present, is an object) does not raise: it is answered with
  status 200, \<^verbatim>\<open>success: false\<close> and the code \<^verbatim>\<open>UNKNOWN_ACTION\<close>.
\<close>

theorem malformed_body:
  assumes "path req = ''/execute''"
  shows "(body req = Not_JSON \<longrightarrow> do_POST plugin t_start t_end req = Inl JSONDecodeError) \<and>
    (body req = JSON (JObj members) \<and> map_of members ''action'' = None \<and>
     dict_get members ''context'' (JObj []) = JObj ctx \<longrightarrow>
       (\<exists>r. do_POST plugin t_start t_end req = Inr r \<and> status r = 200 \<and>
            member r ''success'' = Some (JBool False) \<and>
            member r ''error'' = Some (JObj [(''code'', JStr ''UNKNOWN_ACTION''),
              (''message'', JStr ''Unknown action: None'')])))"
  using assms by (auto simp: do_POST_def execute_def dict_get_def send_json_def member_def)

theorem malformed_body_witness:
  "do_POST demo_plugin 0 0 \<lparr>command = ''POST'', path = ''/execute'', body = Not_JSON\<rparr>
     = Inl JSONDecodeError \<and>
   (\<exists>r. do_POST demo_plugin 0 0 (post_execute (JObj [(''config'', JObj [])])) = Inr r \<and>
      status r = 200 \<and> member r ''success'' = Some (JBool False) \<and>
      member r ''error'' = Some (JObj [(''code'', JStr ''UNKNOWN_ACTION''),
              (''message'', JStr ''Unknown action: None'')]))"
  using malformed_body [of "\<lparr>command = ''POST'', path = ''/execute'', body = Not_JSON\<rparr>"
      demo_plugin 0 0 "[]" "[]"]
    malformed_body [of "post_execute (JObj [(''config'', JObj [])])" demo_plugin 0 0
      "[(''config'', JObj [])]" "[]"]
  by (simp add: post_execute_def dict_get_def)

text \<open>
  C3. The claim: every \<^verbatim>\<open>POST /execute\<close> request that names an action id not in the
  registry is answered with \<^verbatim>\<open>success: false\<close> and the code \<^verbatim>\<open>UNKNOWN_ACTION\<close>. The
  body \<^verbatim>\<open>{"action": "nope", "context": null}\<close> names an id that the plugin has not
  registered, but \<^verbatim>\<open>ctx_data\<close> is \<^verbatim>\<open>None\<close> there and \<^verbatim>\<open>ctx_data.get\<close> raises
  \<^verbatim>\<open>AttributeError\<close> before the registry is looked at: no reply is written.
\<close>

theorem unknown_action_counterexample:
  "map_of (handlers demo_plugin) ''nope'' = None \<and>
   do_POST demo_plugin 0 0
     (post_execute (JObj [(''action'', JStr ''nope''), (''context'', JNull)]))
     = Inl AttributeError"
  by (simp add: demo_defs do_POST_def execute_def dict_get_def)

text \<open>
  C3, as the code has it. A \<^verbatim>\<open>POST /execute\<close> request names an action id \<open>a\<close> that
  is not in the registry, and its body is a JSON object whose \<^verbatim>\<open>context\<close>, when
  present, is an object. The reply is \<^verbatim>\<open>success: false\<close> with the error code
  \<^verbatim>\<open>UNKNOWN_ACTION\<close> and the message \<^verbatim>\<open>Unknown action: a\<close>, and it has no
  \<^verbatim>\<open>logs\<close> and no \<^verbatim>\<open>metrics\<close> member.
\<close>

theorem unknown_action:
  assumes "path req = ''/execute''"
    and "body req = JSON (JObj members)"
    and "dict_get members ''action'' JNull = JStr a"
    and "dict_get members ''context'' (JObj []) = JObj ctx"
    and "map_of (handlers plugin) a = None"
  shows "\<exists>r. do_POST plugin t_start t_end req = Inr r \<and>
     r = send_json (JObj
       [(''success'', JBool False),
        (''error'', JObj [(''code'', JStr ''UNKNOWN_ACTION''),
                          (''message'', JStr (''Unknown action: '' @ a))])]) 200 \<and>
     member r ''logs'' = None \<and> member r ''metrics'' = None"
  using assms by (auto simp: do_POST_def execute_def send_json_def member_def)

theorem unknown_action_witness:
  "\<exists>r. do_POST demo_plugin 0 (1/4) (post_execute (JObj [(''action'', JStr ''nope'')])) = Inr r \<and>
     r = send_json (JObj
       [(''success'', JBool False),
        (''error'', JObj [(''code'', JStr ''UNKNOWN_ACTION''),
                          (''message'', JStr ''Unknown action: nope'')])]) 200 \<and>
     member r ''logs'' = None \<and> member r ''metrics'' = None"
  using unknown_action [of "post_execute (JObj [(''action'', JStr ''nope'')])"
      "[(''action'', JStr ''nope'')]" "''nope''" "[]" demo_plugin 0 "1/4"]
  by (simp add: demo_defs dict_get_def)



text \<open>
  C5. During its call the handler appends records through the logger: the calls
  \<open>calls\<close>, in this order. Whether the handler then returns or raises, the reply's
  \<^verbatim>\<open>logs\<close> array holds one record per call, in the order of the calls, each with the
  level of the method called and the message given.
\<close>

theorem logs_in_emission_order:
  assumes "path req = ''/execute''"
    and "body req = JSON (JObj members)"
    and "dict_get members ''action'' JNull = JStr A"
    and "dict_get members ''context'' (JObj []) = JObj ctx"
    and "map_of (handlers plugin) A = Some h"
    and "h (dict_get members ''config'' (JObj [])) (make_context ctx) Logger_init
           = (out, foldl log_call Logger_init calls)"
    and "out = Returns result \<or> out = Raises e"
  shows "\<exists>r. do_POST plugin t_start t_end req = Inr r \<and>
     member r ''success'' = Some (JBool (out = Returns result)) \<and>
     member r ''logs'' = Some (JArr (map (\<lambda>(m, msg, t).
        JObj [(''level'', JStr (level_name m)), (''message'', JStr msg),
              (''timestamp'', JStr (isoformat t))]) calls))"
proof -
  have l: "map to_dict (logs (foldl log_call Logger_init calls)) =
      map (\<lambda>(m, msg, t). JObj [(''level'', JStr (level_name m)), (''message'', JStr msg),
              (''timestamp'', JStr (isoformat t))]) calls"
    by (simp add: logs_calls Logger_init_def to_dict_def split_def comp_def)
  from assms(7) show ?thesis
  proof
    assume "out = Returns result"
    with assms l show ?thesis
      by (simp add: do_POST_def execute_def send_json_def member_def)
  next
    assume "out = Raises e"
    with assms l show ?thesis
      by (simp add: do_POST_def execute_def send_json_def member_def)
  qed
qed

theorem logs_in_emission_order_witness:
  "(\<exists>r. do_POST demo_plugin 0 (1/4) (post_execute (JObj [(''action'', JStr ''greet'')])) = Inr r \<and>
     member r ''success'' = Some (JBool True) \<and>
     member r ''logs'' = Some (JArr
           [JObj [(''level'', JStr ''debug''), (''message'', JStr ''start''),
                  (''timestamp'', JStr ''2024-01-01T00:00:00'')],
            JObj [(''level'', JStr ''info''), (''message'', JStr ''done''),
                  (''timestamp'', JStr ''2024-01-01T00:00:01'')]])) \<and>
   (\<exists>r. do_POST demo_plugin 0 (1/4) (post_execute (JObj [(''action'', JStr ''fail'')])) = Inr r \<and>
     member r ''success'' = Some (JBool False) \<and>
     member r ''logs'' = Some (JArr
           [JObj [(''level'', JStr ''warn''), (''message'', JStr ''about to fail''),
                  (''timestamp'', JStr ''2024-01-01T00:00:02'')]]))"
  using logs_in_emission_order [of "post_execute (JObj [(''action'', JStr ''greet'')])"
      "[(''action'', JStr ''greet'')]" "''greet''" "[]" demo_plugin greet
      "Returns (JObj [(''greeting'', JStr ''hello'')])"
      "[(Debug, ''start'', Datetime ''2024-01-01T00:00:00''),
        (Info, ''done'', Datetime ''2024-01-01T00:00:01'')]"
      "JObj [(''greeting'', JStr ''hello'')]"
      "\<lparr>code_attr = None, str_of = []\<rparr>" 0 "1/4"]
    logs_in_emission_order [of "post_execute (JObj [(''action'', JStr ''fail'')])"
      "[(''action'', JStr ''fail'')]" "''fail''" "[]" demo_plugin failing
      "Raises \<lparr>code_attr = Some (JStr ''BAD_INPUT''), str_of = ''missing field''\<rparr>"
      "[(Warn, ''about to fail'', Datetime ''2024-01-01T00:00:02'')]"
      JNull
      "\<lparr>code_attr = Some (JStr ''BAD_INPUT''), str_of = ''missing field''\<rparr>" 0 "1/4"]
  by (simp add: demo_defs dict_get_def)

text \<open>
  C7. A \<^verbatim>\<open>POST /execute\<close> request reaches the registry lookup (its body is a JSON
  object, its \<^verbatim>\<open>context\<close> an object when present, its \<^verbatim>\<open>action\<close> hashable). Whether
  the action is unknown, or its handler returns, or its handler raises an exception,
  the request is answered, and with status 200.
\<close>

theorem execute_status_200:
  assumes "path req = ''/execute''"
    and "body req = JSON (JObj members)"
    and "dict_get members ''context'' (JObj []) = JObj ctx"
    and "handlers_get (handlers plugin) (dict_get members ''action'' JNull) = Inr found"
    and "found = None \<or>
         (\<exists>h v lg. found = Some h \<and>
            h (dict_get members ''config'' (JObj [])) (make_context ctx) Logger_init
              = (Returns v, lg)) \<or>
         (\<exists>h e lg. found = Some h \<and>
            h (dict_get members ''config'' (JObj [])) (make_context ctx) Logger_init
              = (Raises e, lg))"
  shows "\<exists>r. do_POST plugin t_start t_end req = Inr r \<and> status r = 200"
  using assms by (auto simp: do_POST_def execute_def send_json_def)

theorem execute_status_200_witness:
  "(\<exists>r. do_POST demo_plugin 0 (1/4) (post_execute (JObj [(''action'', JStr ''greet'')])) = Inr r
        \<and> status r = 200) \<and>
   (\<exists>r. do_POST demo_plugin 0 (1/4) (post_execute (JObj [(''action'', JStr ''fail'')])) = Inr r
        \<and> status r = 200) \<and>
   (\<exists>r. do_POST demo_plugin 0 (1/4) (post_execute (JObj [(''action'', JStr ''nope'')])) = Inr r
        \<and> status r = 200)"
  using execute_status_200 [of "post_execute (JObj [(''action'', JStr ''greet'')])"
      "[(''action'', JStr ''greet'')]" "[]" demo_plugin "Some greet" 0 "1/4"]
    execute_status_200 [of "post_execute (JObj [(''action'', JStr ''fail'')])"
      "[(''action'', JStr ''fail'')]" "[]" demo_plugin "Some failing" 0 "1/4"]
    execute_status_200 [of "post_execute (JObj [(''action'', JStr ''nope'')])"
      "[(''action'', JStr ''nope'')]" "[]" demo_plugin None 0 "1/4"]
  by (simp add: demo_defs dict_get_def)

text \<open>
  C10. The claim: every \<^verbatim>\<open>POST /execute\<close> request whose valid JSON body omits
  \<^verbatim>\<open>action\<close> is answered, without a crash, with the code \<^verbatim>\<open>UNKNOWN_ACTION\<close> and the
  message \<^verbatim>\<open>Unknown action: None\<close>. The body \<^verbatim>\<open>{"context": null}\<close> is valid JSON and
  omits \<^verbatim>\<open>action\<close>, but \<^verbatim>\<open>ctx_data.get\<close> raises \<^verbatim>\<open>AttributeError\<close> on it and no
  reply is written.
\<close>

theorem missing_action_counterexample:
  "map_of [(''context'', JNull)] ''action'' = None \<and>
   do_POST demo_plugin 0 0 (post_execute (JObj [(''context'', JNull)])) = Inl AttributeError"
  by (simp add: do_POST_def execute_def post_execute_def dict_get_def)

text \<open>
  C10, as the code has it. The body of a \<^verbatim>\<open>POST /execute\<close> request is a JSON object
  without \<^verbatim>\<open>action\<close>, and its \<^verbatim>\<open>context\<close>, when present, is an object. The handler
  method does not raise: \<^verbatim>\<open>None\<close> stands for the action, the registry has no entry
  for it, and the reply is \<^verbatim>\<open>success: false\<close> with the code \<^verbatim>\<open>UNKNOWN_ACTION\<close> and
  the message \<^verbatim>\<open>Unknown action: None\<close>.
\<close>

theorem missing_action:
  assumes "path req = ''/execute''"
    and "body req = JSON (JObj members)"
    and "map_of members ''action'' = None"
    and "dict_get members ''context'' (JObj []) = JObj ctx"
  shows "do_POST plugin t_start t_end req =
     Inr (send_json (JObj
       [(''success'', JBool False),
        (''error'', JObj [(''code'', JStr ''UNKNOWN_ACTION''),
                          (''message'', JStr ''Unknown action: None'')])]) 200)"
  using assms by (simp add: do_POST_def execute_def dict_get_def)

theorem missing_action_witness:
  "do_POST demo_plugin 0 (1/4) (post_execute (JObj [(''config'', JObj [(''n'', JInt 1)])])) =
     Inr (send_json (JObj
       [(''success'', JBool False),
        (''error'', JObj [(''code'', JStr ''UNKNOWN_ACTION''),
                          (''message'', JStr ''Unknown action: None'')])]) 200)"
  using missing_action [of "post_execute (JObj [(''config'', JObj [(''n'', JInt 1)])])"
      "[(''config'', JObj [(''n'', JInt 1)])]" "[]" demo_plugin 0 "1/4"]
  by (simp add: post_execute_def dict_get_def)

section \<open>Routes\<close>

text \<open>
  C6. The claim: every request whose method and path are not one of the four routes is
  answered with the JSON error \<^verbatim>\<open>Not found\<close> and status 404. A \<^verbatim>\<open>PUT\<close> request never
  reaches \<^verbatim>\<open>do_GET\<close> or \<^verbatim>\<open>do_POST\<close>: the class has no \<^verbatim>\<open>do_PUT\<close>, and the base
  class answers with status 501.
\<close>

theorem unknown_route_counterexample:
  "handle_one_request demo_plugin 0 0 \<lparr>command = ''PUT'', path = ''/health'', body = Not_JSON\<rparr>
     = Not_Implemented_501 \<and>
   handle_one_request demo_plugin 0 0 \<lparr>command = ''PUT'', path = ''/health'', body = Not_JSON\<rparr>
     \<noteq> Handled (Inr (send_json (JObj [(''error'', JStr ''Not found'')]) 404))"
  by (simp add: handle_one_request_def)

text \<open>
  C6, as the code has it. A \<^verbatim>\<open>GET\<close> request for a path other than \<^verbatim>\<open>/health\<close> and
  \<^verbatim>\<open>/info\<close>, and a \<^verbatim>\<open>POST\<close> request for a path other than \<^verbatim>\<open>/execute\<close> and
  \<^verbatim>\<open>/shutdown\<close>, is answered with the JSON error \<^verbatim>\<open>Not found\<close> and status 404, and
  the handler method does not raise.
\<close>

theorem unknown_route:
  assumes "command req = ''GET'' \<and> path req \<noteq> ''/health'' \<and> path req \<noteq> ''/info'' \<or>
           command req = ''POST'' \<and> path req \<noteq> ''/execute'' \<and> path req \<noteq> ''/shutdown''"
  shows "handle_one_request plugin t_start t_end req =
     Handled (Inr (send_json (JObj [(''error'', JStr ''Not found'')]) 404))"
  using assms by (auto simp: handle_one_request_def do_GET_def do_POST_def)

theorem unknown_route_witness:
  "handle_one_request demo_plugin 0 0 \<lparr>command = ''GET'', path = ''/execute'', body = Not_JSON\<rparr>
     = Handled (Inr (send_json (JObj [(''error'', JStr ''Not found'')]) 404)) \<and>
   handle_one_request demo_plugin 0 0 \<lparr>command = ''POST'', path = ''/health'', body = Not_JSON\<rparr>
     = Handled (Inr (send_json (JObj [(''error'', JStr ''Not found'')]) 404))"
  using unknown_route [of "\<lparr>command = ''GET'', path = ''/execute'', body = Not_JSON\<rparr>"
      demo_plugin 0 0]
    unknown_route [of "\<lparr>command = ''POST'', path = ''/health'', body = Not_JSON\<rparr>"
      demo_plugin 0 0]
  by simp

section \<open>Info and health\<close>

text \<open>
  C8. A plugin whose manifest has \<^verbatim>\<open>id\<close> and \<^verbatim>\<open>name\<close> registers the handlers
  \<open>regs\<close>, in any order and with repetitions. \<^verbatim>\<open>GET /info\<close> answers with the manifest's
  identity and a list of actions, one entry with \<^verbatim>\<open>id\<close>, \<^verbatim>\<open>name\<close> and
  \<^verbatim>\<open>description\<close> per action id; no id occurs twice, and the ids listed are exactly
  the ids registered, which does not depend on the order of registration.
\<close>

theorem info_lists_each_action_once:
  assumes "path req = ''/info''"
    and "map_of m ''id'' = Some plugin_id"
    and "map_of m ''name'' = Some plugin_name"
    and "plugin = register_all (TestMeshPlugin_init m plugin_port t0) regs"
  shows "\<exists>ids. do_GET plugin now req =
       Inr (send_json (JObj
         [(''id'', plugin_id),
          (''name'', plugin_name),
          (''version'', dict_get m ''version'' (JStr ''1.0.0'')),
          (''description'', dict_get m ''description'' (JStr [])),
          (''actions'', JArr (map (\<lambda>aid.
             JObj [(''id'', JStr aid), (''name'', JStr aid),
                   (''description'', JStr (''Action: '' @ aid))]) ids))]) 200)
     \<and> distinct ids \<and> set ids = fst ` set regs"
proof -
  have m: "manifest plugin = m"
    by (simp add: assms(4) manifest_register_all TestMeshPlugin_init_def)
  have k: "distinct (dict_keys (handlers plugin)) \<and>
      set (dict_keys (handlers plugin)) = fst ` set regs"
    using keys_register_all [of "TestMeshPlugin_init m plugin_port t0" regs]
    by (simp add: assms(4) TestMeshPlugin_init_def dict_keys_def)
  show ?thesis
    by (rule exI [of _ "dict_keys (handlers plugin)"])
       (simp add: k do_GET_def assms(1-3) m dict_item_def)
qed

theorem info_lists_each_action_once_witness:
  "\<exists>ids. do_GET demo_plugin 7 \<lparr>command = ''GET'', path = ''/info'', body = Not_JSON\<rparr> =
       Inr (send_json (JObj
         [(''id'', JStr ''demo''),
          (''name'', JStr ''Demo plugin''),
          (''version'', JStr ''1.0.0''),
          (''description'', JStr []),
          (''actions'', JArr (map (\<lambda>aid.
             JObj [(''id'', JStr aid), (''name'', JStr aid),
                   (''description'', JStr (''Action: '' @ aid))]) ids))]) 200)
     \<and> distinct ids \<and> set ids = {''greet'', ''fail'', ''quiet''}"
  using info_lists_each_action_once [of
      "\<lparr>command = ''GET'', path = ''/info'', body = Not_JSON\<rparr>"
      demo_manifest "JStr ''demo''" "JStr ''Demo plugin''" demo_plugin 0 100
      "[(''greet'', greet), (''fail'', failing), (''quiet'', quiet), (''greet'', greet)]" 7]
  by (simp add: demo_plugin_def demo_manifest_def dict_get_def insert_commute)

text \<open>
  C9. \<^verbatim>\<open>GET /health\<close> answers with the status \<^verbatim>\<open>healthy\<close>, and of two calls the one
  made at the later reading of the clock reports an uptime that is not smaller.
\<close>

theorem health_uptime_monotone:
  assumes "path req = ''/health''" and "t1 \<le> t2"
  shows "\<exists>u1 u2.
     do_GET plugin t1 req = Inr (send_json (JObj
       [(''status'', JStr ''healthy''),
        (''version'', dict_get (manifest plugin) ''version'' (JStr ''1.0.0'')),
        (''uptime_seconds'', JInt u1)]) 200) \<and>
     do_GET plugin t2 req = Inr (send_json (JObj
       [(''status'', JStr ''healthy''),
        (''version'', dict_get (manifest plugin) ''version'' (JStr ''1.0.0'')),
        (''uptime_seconds'', JInt u2)]) 200) \<and>
     u1 \<le> u2"
proof -
  have "py_int (t1 - start_time plugin) \<le> py_int (t2 - start_time plugin)"
    using assms(2) by (simp add: py_int_mono)
  then show ?thesis
    by (intro exI [of _ "py_int (t1 - start_time plugin)"]
          exI [of _ "py_int (t2 - start_time plugin)"])
       (simp add: do_GET_def assms(1))
qed

theorem health_uptime_monotone_witness:
  "\<exists>u1 u2.
     do_GET demo_plugin (207/2) \<lparr>command = ''GET'', path = ''/health'', body = Not_JSON\<rparr> =
       Inr (send_json (JObj
         [(''status'', JStr ''healthy''), (''version'', JStr ''1.0.0''),
          (''uptime_seconds'', JInt u1)]) 200) \<and>
     do_GET demo_plugin 109 \<lparr>command = ''GET'', path = ''/health'', body = Not_JSON\<rparr> =
       Inr (send_json (JObj
         [(''status'', JStr ''healthy''), (''version'', JStr ''1.0.0''),
          (''uptime_seconds'', JInt u2)]) 200) \<and>
     u1 \<le> u2"
  using health_uptime_monotone [of
      "\<lparr>command = ''GET'', path = ''/health'', body = Not_JSON\<rparr>" "207/2" 109 demo_plugin]
  by (simp add: demo_plugin_def demo_manifest_def manifest_register_all
      TestMeshPlugin_init_def dict_get_def)

end
